theory Spec2Isabelle
  imports Main "HOL-Library.Word"
begin

section \<open>The archive as the client sees it\<close>

text \<open>
  The client \<^verbatim>\<open>main.cpp\<close> reads five collections and one version field of a
  \<^verbatim>\<open>genie::DatFile\<close>. The header \<^verbatim>\<open>genie/dat/DatFile.h\<close> is not part of the
  sources, so the records below hold exactly the members the client names. Of a unit
  it reads \<^verbatim>\<open>ID\<close>, \<^verbatim>\<open>Name\<close> and \<^verbatim>\<open>HitPoints\<close>; of a civilization
  \<^verbatim>\<open>Name\<close> and \<^verbatim>\<open>Units\<close>; of a technology \<^verbatim>\<open>Name\<close>. Of graphics, sounds
  and effects it reads only the number of elements, so their element types stay opaque.
  The numeric members are printed and never computed with, hence \<open>int\<close>.
\<close>

record Unit =
  unit_ID :: int
  unit_Name :: string
  unit_HitPoints :: int

record Civ =
  civ_Name :: string
  civ_Units :: "Unit list"

record Tech =
  tech_Name :: string

typedecl Graphic
typedecl Sound
typedecl Effect

record DatFile =
  FileVersion :: string
  Civs :: "Civ list"
  Techs :: "Tech list"
  Graphics :: "Graphic list"
  Sounds :: "Sound list"
  Effects :: "Effect list"

text \<open>The one enumerator of the game version that the client names.\<close>

datatype GameVersion = GV_LatestDE2

text \<open>The error taxonomy of the specification (section 7).\<close>

datatype error = TruncatedData | CorruptArchive | UnsupportedVersion | NotFound

section \<open>Indexed queries\<close>

text \<open>
  Modelled from the spec: the indexed accessors of the archive, whose declarations
  (\<^verbatim>\<open>genie/dat/DatFile.h\<close>) are missing from the sources. Section 4.6 of the
  specification: a lookup by index outside the valid range fails with \<open>NotFound\<close>
  rather than returning a default or empty value. The client writes these queries
  as \<^verbatim>\<open>df.Civs[i]\<close>, \<^verbatim>\<open>df.Techs[i]\<close> and \<^verbatim>\<open>gaia.Units[i]\<close> with an index of
  type \<^verbatim>\<open>size_t\<close>, hence \<open>nat\<close>.
\<close>

definition element_at :: "'a list \<Rightarrow> nat \<Rightarrow> error + 'a" where
  "element_at xs i = (if i < length xs then Inr (xs ! i) else Inl NotFound)"

definition Civilization :: "DatFile \<Rightarrow> nat \<Rightarrow> error + Civ" where
  "Civilization df i = element_at (Civs df) i"

definition Technology :: "DatFile \<Rightarrow> nat \<Rightarrow> error + Tech" where
  "Technology df i = element_at (Techs df) i"

definition Civilization_Unit :: "Civ \<Rightarrow> nat \<Rightarrow> error + Unit" where
  "Civilization_Unit c i = element_at (civ_Units c) i"

definition Graphic :: "DatFile \<Rightarrow> nat \<Rightarrow> error + Graphic" where
  "Graphic df i = element_at (Graphics df) i"

definition Sound :: "DatFile \<Rightarrow> nat \<Rightarrow> error + Sound" where
  "Sound df i = element_at (Sounds df) i"

definition Effect :: "DatFile \<Rightarrow> nat \<Rightarrow> error + Effect" where
  "Effect df i = element_at (Effects df) i"

text \<open>
  Modelled from the spec: the count accessors of the archive (section 6), missing from
  the sources with the same header. A count is the size of the collection, unused
  slots included; the client reads it as \<^verbatim>\<open>df.Civs.size()\<close> and
  \<^verbatim>\<open>df.Techs.size()\<close>.
\<close>

definition CivilizationCount :: "DatFile \<Rightarrow> nat" where
  "CivilizationCount df = length (Civs df)"

definition TechnologyCount :: "DatFile \<Rightarrow> nat" where
  "TechnologyCount df = length (Techs df)"

section \<open>Count-prefixed arrays on disk\<close>

text \<open>
  Modelled from the spec: the byte cursor of section 4.1, missing from the sources with
  the whole decoder. It holds a buffer and a read offset. \<open>read_fixed\<close> returns exactly
  \<open>width\<close> bytes and advances the offset by \<open>width\<close>; it fails with
  \<open>TruncatedData\<close> when the read would exceed what remains of the buffer.
\<close>

type_synonym byte = "8 word"

record cursor =
  buffer :: "byte list"
  offset :: nat

definition read_fixed :: "nat \<Rightarrow> cursor \<Rightarrow> error + byte list \<times> cursor" where
  "read_fixed width c =
     (if offset c + width \<le> length (buffer c)
      then Inr (take width (drop (offset c) (buffer c)), c\<lparr>offset := offset c + width\<rparr>)
      else Inl TruncatedData)"

text \<open>
  Modelled from the spec: the typed read of an integer (section 4.1), which interprets
  the next bytes in the little-endian convention of the format. The width of a field is
  fixed by the format version and is a parameter here.
\<close>

fun little_endian :: "byte list \<Rightarrow> nat" where
  "little_endian [] = 0"
| "little_endian (b # bs) = unat b + 256 * little_endian bs"

definition read_uint :: "nat \<Rightarrow> cursor \<Rightarrow> error + nat \<times> cursor" where
  "read_uint width c =
     (case read_fixed width c of
        Inl e \<Rightarrow> Inl e
      | Inr (bs, c') \<Rightarrow> Inr (little_endian bs, c'))"

text \<open>
  Modelled from the spec: the length-prefixed string read (section 4.1). It reads a
  length field, then that many bytes, and returns them as a string, trimmed of one
  trailing terminator if present.
\<close>

definition trim_terminator :: "byte list \<Rightarrow> byte list" where
  "trim_terminator bs = (if bs \<noteq> [] \<and> last bs = 0 then butlast bs else bs)"

definition read_string :: "nat \<Rightarrow> cursor \<Rightarrow> error + string \<times> cursor" where
  "read_string length_width c =
     (case read_uint length_width c of
        Inl e \<Rightarrow> Inl e
      | Inr (n, c1) \<Rightarrow>
          (case read_fixed n c1 of
             Inl e \<Rightarrow> Inl e
           | Inr (bs, c2) \<Rightarrow> Inr (map (\<lambda>b. char_of (unat b)) (trim_terminator bs), c2)))"

text \<open>
  Modelled from the spec: the reader of a count-prefixed array (section 4.4). It reads
  an integer count first, then exactly that many elements with the reader of one
  record; a count of zero yields the empty sequence. A short read inside an element
  surfaces the cursor's failure. The reader of one record is a parameter: its layout
  depends on the version, and it consumes the record whether or not its name is empty.
\<close>

fun read_elements ::
  "(cursor \<Rightarrow> error + 'a \<times> cursor) \<Rightarrow> nat \<Rightarrow> cursor \<Rightarrow> error + 'a list \<times> cursor" where
  "read_elements read_record 0 c = Inr ([], c)"
| "read_elements read_record (Suc n) c =
     (case read_record c of
        Inl e \<Rightarrow> Inl e
      | Inr (x, c1) \<Rightarrow>
          (case read_elements read_record n c1 of
             Inl e \<Rightarrow> Inl e
           | Inr (xs, c2) \<Rightarrow> Inr (x # xs, c2)))"

definition read_counted_array ::
  "nat \<Rightarrow> (cursor \<Rightarrow> error + 'a \<times> cursor) \<Rightarrow> cursor \<Rightarrow> error + 'a list \<times> cursor" where
  "read_counted_array count_width read_record c =
     (case read_uint count_width c of
        Inl e \<Rightarrow> Inl e
      | Inr (n, c1) \<Rightarrow> read_elements read_record n c1)"

text \<open>
  Modelled from the spec: a reader of one technology record, for the one member the
  client reads, the display name, stored as a length-prefixed string. The further
  fields of a technology are not described byte by byte in the specification; the
  properties below are stated for every reader of a record.
\<close>

definition read_Tech :: "nat \<Rightarrow> cursor \<Rightarrow> error + Tech \<times> cursor" where
  "read_Tech length_width c =
     (case read_string length_width c of
        Inl e \<Rightarrow> Inl e
      | Inr (name, c') \<Rightarrow> Inr (\<lparr>tech_Name = name\<rparr>, c'))"

section \<open>What the client does: a trace of its actions\<close>

text \<open>
  The client is sequential. Its observable actions, in program order, are the lines it
  writes to \<^verbatim>\<open>std::cout\<close> and \<^verbatim>\<open>std::cerr\<close> (one event per statement ending in
  \<^verbatim>\<open>std::endl\<close>, holding the text of the line) and its three uses of the decoder:
  the construction of the \<^verbatim>\<open>DatFile\<close>, \<^verbatim>\<open>setGameVersion\<close> and \<^verbatim>\<open>load\<close>.
\<close>

datatype event =
    Cout string
  | Cerr string
  | New_DatFile
  | SetGameVersion GameVersion
  | Load string

text \<open>
  How a run ends: \<^verbatim>\<open>return n\<close> from \<^verbatim>\<open>main\<close>; an exception that leaves
  \<^verbatim>\<open>main\<close> (the indexed queries are made outside the \<^verbatim>\<open>try\<close> block); or
  undefined behaviour.
\<close>

datatype outcome = Exit int | Uncaught error | Undefined_Behaviour

text \<open>
  The decoder is a collaborator of the client and a parameter of the model.
  \<^verbatim>\<open>df.load(path)\<close> either returns, leaving the decoded archive in \<^verbatim>\<open>df\<close>, or
  throws an exception derived from \<^verbatim>\<open>std::exception\<close>, which is what the client's
  handler catches; then \<open>Threw\<close> holds the text of \<^verbatim>\<open>e.what()\<close> and whatever the
  failed load left in the object. The constructor and \<^verbatim>\<open>setGameVersion\<close> are taken
  to return normally. The decoder receives the declared version and the path, as in
  \<^verbatim>\<open>df.setGameVersion(genie::GV_LatestDE2); df.load(datPath.c_str())\<close>.
\<close>

datatype load_result = Loaded DatFile | Threw string DatFile

type_synonym decoder = "GameVersion \<Rightarrow> string \<Rightarrow> load_result"

subsection \<open>Printing numbers\<close>

text \<open>\<^verbatim>\<open>operator<<\<close> on an unsigned or signed integer writes it in decimal.\<close>

definition digit :: "nat \<Rightarrow> char" where
  "digit d = ''0123456789'' ! (d mod 10)"

function show_nat :: "nat \<Rightarrow> string" where
  "show_nat n = (if n < 10 then [digit n] else show_nat (n div 10) @ [digit (n mod 10)])"
  by pat_completeness auto
termination
  by (relation "measure id") auto

declare show_nat.simps [simp del]

definition show_int :: "int \<Rightarrow> string" where
  "show_int k = (if k < 0 then CHR ''-'' # show_nat (nat (- k)) else show_nat (nat k))"

subsection \<open>The lines of the report\<close>

definition more_line :: "nat \<Rightarrow> event" where
  "more_line n = Cout (''  ... and '' @ show_nat n @ '' more'')"

definition civ_row :: "nat \<Rightarrow> Civ \<Rightarrow> event" where
  "civ_row i c = Cout (''  ['' @ show_nat i @ ''] '' @ civ_Name c)"

definition tech_row :: "nat \<Rightarrow> Tech \<Rightarrow> event" where
  "tech_row i t = Cout (''  ['' @ show_nat i @ ''] '' @ tech_Name t)"

definition unit_row :: "Unit \<Rightarrow> event" where
  "unit_row u = Cout (''  ['' @ show_int (unit_ID u) @ ''] '' @ unit_Name u
                        @ '' (HP: '' @ show_int (unit_HitPoints u) @ '')'')"

subsection \<open>The three loops\<close>

text \<open>
  Each loop is a recursive function over the loop variables and the output written so
  far. The counters are \<^verbatim>\<open>size_t\<close>; they stay below the size of a collection, so
  they cannot wrap and \<open>nat\<close> models them exactly.

  Lines 34 to 36: \<^verbatim>\<open>for (size_t i = 0; i < df.Civs.size(); i++)\<close>.
\<close>

function civ_loop :: "DatFile \<Rightarrow> nat \<Rightarrow> event list \<Rightarrow> error + event list" where
  "civ_loop df i out =
     (if i < length (Civs df) then
        (case Civilization df i of
           Inl e \<Rightarrow> Inl e
         | Inr c \<Rightarrow> civ_loop df (i + 1) (out @ [civ_row i c]))
      else Inr out)"
  by pat_completeness auto
termination
  by (relation "measure (\<lambda>(df, i, out). length (Civs df) - i)") auto

declare civ_loop.simps [simp del]

text \<open>Lines 42 to 46: \<^verbatim>\<open>for (size_t i = 0; i < techLimit; i++)\<close>.\<close>

function tech_loop :: "DatFile \<Rightarrow> nat \<Rightarrow> nat \<Rightarrow> event list \<Rightarrow> error + event list" where
  "tech_loop df techLimit i out =
     (if i < techLimit then
        (case Technology df i of
           Inl e \<Rightarrow> Inl e
         | Inr t \<Rightarrow>
             if tech_Name t \<noteq> [] then tech_loop df techLimit (i + 1) (out @ [tech_row i t])
             else tech_loop df techLimit (i + 1) out)
      else Inr out)"
  by pat_completeness auto
termination
  by (relation "measure (\<lambda>(df, techLimit, i, out). techLimit - i)") auto

declare tech_loop.simps [simp del]

text \<open>
  Lines 56 to 63:
  \<^verbatim>\<open>for (size_t i = 0; i < gaia.Units.size() && printed < 10; i++)\<close>.
  The loop returns the counter \<^verbatim>\<open>printed\<close> with the output.
\<close>

function unit_loop :: "Civ \<Rightarrow> nat \<Rightarrow> nat \<Rightarrow> event list \<Rightarrow> error + nat \<times> event list" where
  "unit_loop gaia i printed out =
     (if i < length (civ_Units gaia) \<and> printed < 10 then
        (case Civilization_Unit gaia i of
           Inl e \<Rightarrow> Inl e
         | Inr unit \<Rightarrow>
             if unit_Name unit \<noteq> [] then unit_loop gaia (i + 1) (printed + 1) (out @ [unit_row unit])
             else unit_loop gaia (i + 1) printed out)
      else Inr (printed, out))"
  by pat_completeness auto
termination
  by (relation "measure (\<lambda>(gaia, i, printed, out). length (civ_Units gaia) - i)") auto

declare unit_loop.simps [simp del]

subsection \<open>The sections of the report\<close>

text \<open>Lines 33 to 37.\<close>

definition Civilizations :: "DatFile \<Rightarrow> event list \<Rightarrow> error + event list" where
  "Civilizations df out =
     (case civ_loop df 0
             (out @ [Cout (''=== Civilizations ('' @ show_nat (length (Civs df)) @ '') ==='')]) of
        Inl e \<Rightarrow> Inl e
      | Inr out' \<Rightarrow> Inr (out' @ [Cout '''']))"

text \<open>Lines 40 to 49.\<close>

definition Technologies :: "DatFile \<Rightarrow> event list \<Rightarrow> error + event list" where
  "Technologies df out =
     (let techLimit = min (length (Techs df)) 10 in
      case tech_loop df techLimit 0
             (out @ [Cout (''=== Technologies ('' @ show_nat (length (Techs df)) @ '') ==='')]) of
        Inl e \<Rightarrow> Inl e
      | Inr out' \<Rightarrow>
          Inr ((if length (Techs df) > techLimit
                then out' @ [more_line (length (Techs df) - techLimit)] else out')
               @ [Cout '''']))"

text \<open>Lines 52 to 67.\<close>

definition Units_in_Gaia :: "DatFile \<Rightarrow> event list \<Rightarrow> error + event list" where
  "Units_in_Gaia df out =
     (if Civs df \<noteq> [] then
        (case Civilization df 0 of
           Inl e \<Rightarrow> Inl e
         | Inr gaia \<Rightarrow>
             (case unit_loop gaia 0 0
                     (out @ [Cout (''=== Units in '' @ civ_Name gaia @ '' (''
                                     @ show_nat (length (civ_Units gaia)) @ '') ==='')]) of
                Inl e \<Rightarrow> Inl e
              | Inr (printed, out') \<Rightarrow>
                  Inr (if length (civ_Units gaia) > printed
                       then out' @ [more_line (length (civ_Units gaia) - printed)] else out')))
      else Inr out)"

text \<open>Lines 70 to 73.\<close>

definition Summary :: "DatFile \<Rightarrow> event list" where
  "Summary df =
     [Cout ''=== Summary ==='',
      Cout (''  Graphics: '' @ show_nat (length (Graphics df))),
      Cout (''  Sounds:   '' @ show_nat (length (Sounds df))),
      Cout (''  Effects:  '' @ show_nat (length (Effects df)))]"

text \<open>Lines 29 to 73: everything the client prints once the load has returned.\<close>

definition report :: "DatFile \<Rightarrow> event list \<Rightarrow> error + event list" where
  "report df out =
     (case Civilizations df (out @ [Cout (''File version: '' @ FileVersion df), Cout '''']) of
        Inl e \<Rightarrow> Inl e
      | Inr out1 \<Rightarrow>
          (case Technologies df out1 of
             Inl e \<Rightarrow> Inl e
           | Inr out2 \<Rightarrow>
               (case Units_in_Gaia df out2 of
                  Inl e \<Rightarrow> Inl e
                | Inr out3 \<Rightarrow> Inr (out3 @ [Cout ''''] @ Summary df))))"

subsection \<open>The program\<close>

text \<open>
  \<^verbatim>\<open>argv\<close> is the list of the \<^verbatim>\<open>argc\<close> argument strings. When \<^verbatim>\<open>argc\<close> is 0,
  \<^verbatim>\<open>argv[0]\<close> is the null pointer that ends the array, and line 10 streams it into
  \<^verbatim>\<open>std::cerr\<close>: the inserter for \<^verbatim>\<open>const char*\<close> requires a non-null pointer, so
  the behaviour is undefined.
\<close>

definition datPath :: "string \<Rightarrow> string" where
  "datPath gameDir = gameDir @ ''/resources/_common/dat/empires2_x2_p1.dat''"

definition main :: "decoder \<Rightarrow> string list \<Rightarrow> event list \<times> outcome" where
  "main load argv =
     (if length argv < 2 then
        (case argv of
           [] \<Rightarrow> ([], Undefined_Behaviour)
         | argv0 # _ \<Rightarrow> ([Cerr (''Usage: '' @ argv0 @ '' <path-to-AoE2DE-game-dir>'')], Exit 1))
      else
        let gameDir = argv ! 1;
            out = [Cout (''Loading: '' @ datPath gameDir),
                   New_DatFile,
                   SetGameVersion GV_LatestDE2,
                   Load (datPath gameDir)]
        in case load GV_LatestDE2 (datPath gameDir) of
             Threw what partial \<Rightarrow> (out @ [Cerr (''Failed to load dat file: '' @ what)], Exit 1)
           | Loaded df \<Rightarrow>
               (case report df out of
                  Inl e \<Rightarrow> (out, Uncaught e)
                | Inr out' \<Rightarrow> (out', Exit 0)))"

section \<open>Vocabulary of the properties\<close>

text \<open>
  The technology rows of the report: the slots among the first ten whose name is not
  empty, each with its index in the collection.
\<close>

definition tech_rows :: "Tech list \<Rightarrow> event list" where
  "tech_rows ts =
     map (\<lambda>(j, t). tech_row j t)
       (filter (\<lambda>(j, t). tech_Name t \<noteq> []) (enumerate 0 (take 10 ts)))"

text \<open>The unit rows of the report: the first ten units whose name is not empty.\<close>

definition unit_rows :: "Unit list \<Rightarrow> event list" where
  "unit_rows us = map unit_row (take 10 (filter (\<lambda>u. unit_Name u \<noteq> []) us))"

text \<open>Reading a section of the report back: its rows and its closing line.\<close>

fun is_row :: "event \<Rightarrow> bool" where
  "is_row (Cout s) = (take 3 s = ''  ['')"
| "is_row e = False"

fun is_more_line :: "event \<Rightarrow> bool" where
  "is_more_line (Cout s) = (take 10 s = ''  ... and '')"
| "is_more_line e = False"

text \<open>
  The relation that claim C10 states between the number of entries of a collection and
  the section printed for it: a line \<^verbatim>\<open>... and N more\<close> is there exactly when
  entries remain beyond the rows printed.
\<close>

definition more_line_iff_entries_remain :: "nat \<Rightarrow> error + event list \<Rightarrow> bool" where
  "more_line_iff_entries_remain entries section =
     (case section of
        Inl e \<Rightarrow> False
      | Inr lines \<Rightarrow> list_ex is_more_line lines = (length (filter is_row lines) < entries))"

text \<open>The events that write a line, as opposed to the uses of the decoder.\<close>

fun is_print :: "event \<Rightarrow> bool" where
  "is_print (Cout s) = True"
| "is_print (Cerr s) = True"
| "is_print New_DatFile = False"
| "is_print (SetGameVersion v) = False"
| "is_print (Load p) = False"

text \<open>
  A trace respects the order of declaration and decoding when every \<open>Load\<close> happens
  on an object whose game version the caller has set since its construction. The first
  argument is the version declared so far.
\<close>

fun declared_before_load :: "GameVersion option \<Rightarrow> event list \<Rightarrow> bool" where
  "declared_before_load v [] = True"
| "declared_before_load v (New_DatFile # es) = declared_before_load None es"
| "declared_before_load v (SetGameVersion g # es) = declared_before_load (Some g) es"
| "declared_before_load v (Load p # es) = (v \<noteq> None \<and> declared_before_load v es)"
| "declared_before_load v (Cout s # es) = declared_before_load v es"
| "declared_before_load v (Cerr s # es) = declared_before_load v es"

section \<open>Example archives\<close>

text \<open>
  The civilization of the scenario in section 8 of the specification: Gaia with two
  units, ids 4 and 5, of which the second is an unused slot.
\<close>

definition gaia_example :: Civ where
  "gaia_example =
     \<lparr>civ_Name = ''Gaia'',
      civ_Units = [\<lparr>unit_ID = 4, unit_Name = ''Scout'', unit_HitPoints = 30\<rparr>,
                   \<lparr>unit_ID = 5, unit_Name = '''', unit_HitPoints = 0\<rparr>]\<rparr>"

text \<open>An archive with two civilizations and twelve technology slots, three of them named.\<close>

definition archive_example :: DatFile where
  "archive_example =
     \<lparr>FileVersion = ''VER 7.8'',
      Civs = [gaia_example, \<lparr>civ_Name = ''Britons'', civ_Units = []\<rparr>],
      Techs = [\<lparr>tech_Name = ''Town Watch''\<rparr>, \<lparr>tech_Name = ''''\<rparr>,
               \<lparr>tech_Name = ''Crop Rotation''\<rparr>, \<lparr>tech_Name = ''''\<rparr>,
               \<lparr>tech_Name = ''''\<rparr>, \<lparr>tech_Name = ''''\<rparr>,
               \<lparr>tech_Name = ''''\<rparr>, \<lparr>tech_Name = ''''\<rparr>,
               \<lparr>tech_Name = ''''\<rparr>, \<lparr>tech_Name = ''''\<rparr>,
               \<lparr>tech_Name = ''''\<rparr>, \<lparr>tech_Name = ''Loom''\<rparr>],
      Graphics = [], Sounds = [], Effects = []\<rparr>"

text \<open>
  The technology scenario of section 8 of the specification: ten slots, three of them
  named.
\<close>

definition archive_ten_techs :: DatFile where
  "archive_ten_techs =
     archive_example
       \<lparr>Techs := [\<lparr>tech_Name = ''Town Watch''\<rparr>, \<lparr>tech_Name = ''''\<rparr>,
                  \<lparr>tech_Name = ''Crop Rotation''\<rparr>, \<lparr>tech_Name = ''''\<rparr>,
                  \<lparr>tech_Name = ''''\<rparr>, \<lparr>tech_Name = ''''\<rparr>,
                  \<lparr>tech_Name = ''''\<rparr>, \<lparr>tech_Name = ''Loom''\<rparr>,
                  \<lparr>tech_Name = ''''\<rparr>, \<lparr>tech_Name = ''''\<rparr>]\<rparr>"

text \<open>
  The same ten slots as bytes: the count 10 in two bytes, then ten records, each a name
  with its length in two bytes. Seven of the records have the length 0.
\<close>

definition ten_techs_bytes :: "byte list" where
  "ten_techs_bytes =
     [10, 0,
      10, 0, 84, 111, 119, 110, 32, 87, 97, 116, 99, 104,
      0, 0,
      13, 0, 67, 114, 111, 112, 32, 82, 111, 116, 97, 116, 105, 111, 110,
      0, 0,
      0, 0,
      0, 0,
      0, 0,
      4, 0, 76, 111, 111, 109,
      0, 0,
      0, 0]"

text \<open>Two technology slots, the second unused.\<close>

definition archive_two_techs :: DatFile where
  "archive_two_techs =
     archive_example \<lparr>Techs := [\<lparr>tech_Name = ''Town Watch''\<rparr>, \<lparr>tech_Name = ''''\<rparr>]\<rparr>"

text \<open>An archive without civilizations.\<close>

definition archive_no_civs :: DatFile where
  "archive_no_civs = archive_example \<lparr>Civs := []\<rparr>"

text \<open>A decoder that returns the example archive, and one whose load fails.\<close>

definition decoder_loading :: decoder where
  "decoder_loading v path = Loaded archive_example"

definition decoder_failing :: decoder where
  "decoder_failing v path = Threw ''Cannot open file'' archive_no_civs"

section \<open>The loops, characterised\<close>

lemma civ_loop_rows:
  "civ_loop df i out = Inr (out @ map (\<lambda>(j, c). civ_row j c) (enumerate i (drop i (Civs df))))"
proof (induction df i out rule: civ_loop.induct)
  case (1 df i out)
  show ?case
  proof (cases "i < length (Civs df)")
    case True
    then have d: "drop i (Civs df) = Civs df ! i # drop (Suc i) (Civs df)"
      by (simp add: Cons_nth_drop_Suc)
    from True have q: "Civilization df i = Inr (Civs df ! i)"
      by (simp add: Civilization_def element_at_def)
    show ?thesis
      using True "1.IH" [OF True q] by (subst civ_loop.simps) (simp add: q d)
  next
    case False
    then show ?thesis by (subst civ_loop.simps) simp
  qed
qed

lemma tech_loop_rows:
  "techLimit \<le> length (Techs df) \<Longrightarrow>
   tech_loop df techLimit i out =
     Inr (out @ map (\<lambda>(j, t). tech_row j t)
                  (filter (\<lambda>(j, t). tech_Name t \<noteq> [])
                     (enumerate i (take (techLimit - i) (drop i (Techs df))))))"
proof (induction df techLimit i out rule: tech_loop.induct)
  case (1 df techLimit i out)
  show ?case
  proof (cases "i < techLimit")
    case True
    with "1.prems" have il: "i < length (Techs df)" by simp
    then have d: "drop i (Techs df) = Techs df ! i # drop (Suc i) (Techs df)"
      by (simp add: Cons_nth_drop_Suc)
    from True have t: "techLimit - i = Suc (techLimit - Suc i)" by simp
    from il have q: "Technology df i = Inr (Techs df ! i)"
      by (simp add: Technology_def element_at_def)
    show ?thesis
    proof (cases "tech_Name (Techs df ! i) \<noteq> []")
      case True
      show ?thesis
        using \<open>i < techLimit\<close> True "1.IH"(1) [OF \<open>i < techLimit\<close> q True "1.prems"]
        by (subst tech_loop.simps) (simp add: q d t)
    next
      case False
      show ?thesis
        using \<open>i < techLimit\<close> False "1.IH"(2) [OF \<open>i < techLimit\<close> q False "1.prems"]
        by (subst tech_loop.simps) (simp add: q d t)
    qed
  next
    case False
    then show ?thesis by (subst tech_loop.simps) simp
  qed
qed

lemma unit_loop_rows:
  "unit_loop gaia i printed out =
     (let rows = take (10 - printed) (filter (\<lambda>u. unit_Name u \<noteq> []) (drop i (civ_Units gaia)))
      in Inr (printed + length rows, out @ map unit_row rows))"
proof (induction gaia i printed out rule: unit_loop.induct)
  case (1 gaia i printed out)
  show ?case
  proof (cases "i < length (civ_Units gaia) \<and> printed < 10")
    case True
    then have d: "drop i (civ_Units gaia) = civ_Units gaia ! i # drop (Suc i) (civ_Units gaia)"
      by (simp add: Cons_nth_drop_Suc)
    from True have t: "10 - printed = Suc (10 - Suc printed)" by arith
    from True have q: "Civilization_Unit gaia i = Inr (civ_Units gaia ! i)"
      by (simp add: Civilization_Unit_def element_at_def)
    show ?thesis
    proof (cases "unit_Name (civ_Units gaia ! i) \<noteq> []")
      case ne: True
      show ?thesis
        using True ne "1.IH"(1) [OF True q ne]
        by (subst unit_loop.simps) (simp add: q d t Let_def)
    next
      case e: False
      show ?thesis
        using True e "1.IH"(2) [OF True q e]
        by (subst unit_loop.simps) (simp add: q d Let_def)
    qed
  next
    case False
    then show ?thesis by (subst unit_loop.simps) (auto simp: Let_def)
  qed
qed

section \<open>The sections of the report, characterised\<close>

lemma Civilizations_out:
  "Civilizations df out =
     Inr (out @ Cout (''=== Civilizations ('' @ show_nat (length (Civs df)) @ '') ==='')
              # map (\<lambda>(j, c). civ_row j c) (enumerate 0 (Civs df)) @ [Cout ''''])"
  by (simp add: Civilizations_def civ_loop_rows)

lemma Technologies_out:
  "Technologies df out =
     Inr (out @ Cout (''=== Technologies ('' @ show_nat (length (Techs df)) @ '') ==='')
              # tech_rows (Techs df)
              @ (if 10 < length (Techs df) then [more_line (length (Techs df) - 10)] else [])
              @ [Cout ''''])"
proof -
  have le: "min (length (Techs df)) 10 \<le> length (Techs df)" by simp
  have tk: "take (min (length (Techs df)) 10) (Techs df) = take 10 (Techs df)"
    by (simp add: min_def)
  have gt: "min (length (Techs df)) 10 < length (Techs df) \<longleftrightarrow> 10 < length (Techs df)"
    by auto
  have df: "length (Techs df) - min (length (Techs df)) 10 = length (Techs df) - 10"
    by (simp add: min_def)
  show ?thesis
    by (simp add: Technologies_def Let_def tech_loop_rows [OF le] tk gt df tech_rows_def
        del: min_less_iff_conj)
qed

lemma Units_in_Gaia_none: "Civs df = [] \<Longrightarrow> Units_in_Gaia df out = Inr out"
  by (simp add: Units_in_Gaia_def)

lemma Units_in_Gaia_out:
  "Civs df = gaia # cs \<Longrightarrow>
   Units_in_Gaia df out =
     Inr (out @ Cout (''=== Units in '' @ civ_Name gaia @ '' (''
                        @ show_nat (length (civ_Units gaia)) @ '') ==='')
              # unit_rows (civ_Units gaia)
              @ (if length (unit_rows (civ_Units gaia)) < length (civ_Units gaia)
                 then [more_line (length (civ_Units gaia) - length (unit_rows (civ_Units gaia)))]
                 else []))"
  by (simp add: Units_in_Gaia_def Civilization_def element_at_def unit_loop_rows Let_def
      unit_rows_def)

lemma length_tech_rows: "length (tech_rows ts) \<le> 10"
proof -
  have "length (tech_rows ts) \<le> length (enumerate 0 (take 10 ts))"
    unfolding tech_rows_def length_map by (rule length_filter_le)
  then show ?thesis by simp
qed

lemma length_unit_rows: "length (unit_rows us) \<le> 10"
  by (simp add: unit_rows_def)

lemma length_filter_enumerate:
  "length (filter (\<lambda>(j, t). P t) (enumerate n xs)) = length (filter P xs)"
  by (induction xs arbitrary: n) auto

lemma all_print_civ_rows: "list_all is_print (map (\<lambda>(j, c). civ_row j c) xs)"
  by (auto simp: civ_row_def list_all_iff)

lemma all_print_tech_rows: "list_all is_print (tech_rows ts)"
  by (auto simp: tech_rows_def tech_row_def list_all_iff)

lemma all_print_unit_rows: "list_all is_print (unit_rows us)"
  by (auto simp: unit_rows_def unit_row_def list_all_iff)

lemma Civilizations_prints:
  "\<exists>lines. Civilizations df out = Inr (out @ lines) \<and> list_all is_print lines"
  by (simp add: Civilizations_out all_print_civ_rows)

lemma Technologies_prints:
  "\<exists>lines. Technologies df out = Inr (out @ lines) \<and> list_all is_print lines"
  by (simp add: Technologies_out all_print_tech_rows more_line_def)

lemma Units_in_Gaia_prints:
  "\<exists>lines. Units_in_Gaia df out = Inr (out @ lines) \<and> list_all is_print lines"
proof (cases "Civs df")
  case Nil
  then show ?thesis by (simp add: Units_in_Gaia_none)
next
  case (Cons gaia cs)
  then show ?thesis by (simp add: Units_in_Gaia_out all_print_unit_rows more_line_def)
qed

lemma report_prints: "\<exists>lines. report df out = Inr (out @ lines) \<and> list_all is_print lines"
proof -
  let ?out0 = "out @ [Cout (''File version: '' @ FileVersion df), Cout []]"
  obtain l1 where 1: "Civilizations df ?out0 = Inr (?out0 @ l1)" "list_all is_print l1"
    using Civilizations_prints by blast
  obtain l2 where 2: "Technologies df (?out0 @ l1) = Inr ((?out0 @ l1) @ l2)"
    "list_all is_print l2"
    using Technologies_prints by blast
  obtain l3 where 3: "Units_in_Gaia df ((?out0 @ l1) @ l2) = Inr (((?out0 @ l1) @ l2) @ l3)"
    "list_all is_print l3"
    using Units_in_Gaia_prints by blast
  let ?lines = "[Cout (''File version: '' @ FileVersion df), Cout []] @ l1 @ l2 @ l3
                  @ [Cout []] @ Summary df"
  have "report df out = Inr (out @ ?lines)"
    using 1(1) 2(1) 3(1) by (simp add: report_def)
  moreover have "list_all is_print ?lines"
    using 1(2) 2(2) 3(2) by (simp add: Summary_def)
  ultimately show ?thesis by blast
qed

lemma declared_before_load_prints:
  "list_all is_print lines \<Longrightarrow>
   declared_before_load v (es @ lines) = declared_before_load v es"
proof (induction v es rule: declared_before_load.induct)
  case (1 v)
  then show ?case
  proof (induction lines)
    case Nil
    then show ?case by simp
  next
    case (Cons e lines)
    then show ?case by (cases e) simp_all
  qed
qed simp_all



section \<open>Queries out of range\<close>

text \<open>
  C1. A query by index into any collection of the archive (civilizations, technologies,
  the units of a civilization, graphics, sounds, effects) with an index outside the
  valid range fails with \<open>NotFound\<close>; in particular it does not return an element,
  default or empty.
\<close>

theorem out_of_range_query_NotFound:
  "(length (Civs df) \<le> i \<longrightarrow> Civilization df i = Inl NotFound) \<and>
   (length (Techs df) \<le> i \<longrightarrow> Technology df i = Inl NotFound) \<and>
   (length (civ_Units c) \<le> i \<longrightarrow> Civilization_Unit c i = Inl NotFound) \<and>
   (length (Graphics df) \<le> i \<longrightarrow> Graphic df i = Inl NotFound) \<and>
   (length (Sounds df) \<le> i \<longrightarrow> Sound df i = Inl NotFound) \<and>
   (length (Effects df) \<le> i \<longrightarrow> Effect df i = Inl NotFound)"
  by (simp add: Civilization_def Technology_def Civilization_Unit_def Graphic_def Sound_def
      Effect_def element_at_def)

text \<open>Index 12 is out of range for every collection of the example archive.\<close>

theorem out_of_range_query_NotFound_witness:
  "length (Civs archive_example) \<le> 12 \<and> Civilization archive_example 12 = Inl NotFound \<and>
   length (Techs archive_example) \<le> 12 \<and> Technology archive_example 12 = Inl NotFound \<and>
   length (civ_Units gaia_example) \<le> 12 \<and> Civilization_Unit gaia_example 12 = Inl NotFound \<and>
   length (Graphics archive_example) \<le> 12 \<and> Graphic archive_example 12 = Inl NotFound \<and>
   length (Sounds archive_example) \<le> 12 \<and> Sound archive_example 12 = Inl NotFound \<and>
   length (Effects archive_example) \<le> 12 \<and> Effect archive_example 12 = Inl NotFound"
  using out_of_range_query_NotFound [of archive_example 12 gaia_example]
  by (simp add: archive_example_def gaia_example_def)

section \<open>Too few arguments\<close>

text \<open>
  With exactly one argument string (the program name) the client writes the usage line
  to \<^verbatim>\<open>std::cerr\<close> and returns 1; it constructs no \<^verbatim>\<open>DatFile\<close> and loads
  nothing.
\<close>

lemma usage_one_argument:
  "main load [argv0] = ([Cerr (''Usage: '' @ argv0 @ '' <path-to-AoE2DE-game-dir>'')], Exit 1)"
  by (simp add: main_def)

text \<open>
  C8. The claim is that every invocation with \<^verbatim>\<open>argc < 2\<close> prints the usage message
  and returns 1. With \<^verbatim>\<open>argc = 0\<close> the guard of line 9 holds as well, but
  \<^verbatim>\<open>argv[0]\<close> is null there and line 10 streams it: the run has undefined behaviour
  instead of a usage message and exit code 1.
\<close>

theorem usage_without_argv0: "main load [] = ([], Undefined_Behaviour)"
  by (simp add: main_def)

section \<open>A failed load\<close>

text \<open>
  C3. When the load fails, the client writes one error message to \<^verbatim>\<open>std::cerr\<close> and
  returns 1. The trace ends there: nothing of the archive is printed, and the run does
  not depend on what the failed load left behind in the object (\<open>partial\<close>).
\<close>

theorem failed_load_single_error:
  "load GV_LatestDE2 (datPath gameDir) = Threw what partial \<Longrightarrow>
   main load (argv0 # gameDir # rest) =
     ([Cout (''Loading: '' @ datPath gameDir),
       New_DatFile,
       SetGameVersion GV_LatestDE2,
       Load (datPath gameDir),
       Cerr (''Failed to load dat file: '' @ what)],
      Exit 1)"
  by (simp add: main_def Let_def)

theorem failed_load_single_error_witness:
  "decoder_failing GV_LatestDE2 (datPath ''/games/AoE2DE'') =
     Threw ''Cannot open file'' archive_no_civs \<and>
   main decoder_failing [''genie-backend'', ''/games/AoE2DE''] =
     ([Cout ''Loading: /games/AoE2DE/resources/_common/dat/empires2_x2_p1.dat'',
       New_DatFile,
       SetGameVersion GV_LatestDE2,
       Load ''/games/AoE2DE/resources/_common/dat/empires2_x2_p1.dat'',
       Cerr ''Failed to load dat file: Cannot open file''],
      Exit 1)"
  using failed_load_single_error [of decoder_failing "''/games/AoE2DE''" "''Cannot open file''"
      archive_no_civs "''genie-backend''" "[]"]
  by (simp add: decoder_failing_def datPath_def)

section \<open>The version is declared before the load\<close>

text \<open>
  C5. In every run of the client, whatever the arguments and whatever the decoder does,
  each \<open>Load\<close> in the trace comes after a \<open>SetGameVersion\<close> on the same object:
  no decode starts without a version declared by the caller.
\<close>

theorem version_declared_before_load: "declared_before_load None (fst (main load argv))"
proof (cases "length argv < 2")
  case True
  then show ?thesis by (cases argv) (simp_all add: main_def)
next
  case False
  let ?p = "datPath (argv ! 1)"
  let ?out = "[Cout (''Loading: '' @ ?p), New_DatFile, SetGameVersion GV_LatestDE2, Load ?p]"
  have pre: "declared_before_load None ?out" by simp
  show ?thesis
  proof (cases "load GV_LatestDE2 ?p")
    case (Threw what partial)
    with False show ?thesis by (simp add: main_def Let_def)
  next
    case (Loaded df)
    obtain lines where r: "report df ?out = Inr (?out @ lines)" and p: "list_all is_print lines"
      using report_prints by blast
    have "fst (main load argv) = ?out @ lines"
      using False Loaded r by (simp add: main_def Let_def)
    then show ?thesis
      using declared_before_load_prints [OF p, of None ?out] pre by simp
  qed
qed

text \<open>A run that does load: the trace starts with the declaration, then the load.\<close>

theorem version_declared_before_load_witness:
  "declared_before_load None (fst (main decoder_loading [''genie-backend'', ''/games/AoE2DE''])) \<and>
   take 4 (fst (main decoder_loading [''genie-backend'', ''/games/AoE2DE''])) =
     [Cout ''Loading: /games/AoE2DE/resources/_common/dat/empires2_x2_p1.dat'',
      New_DatFile,
      SetGameVersion GV_LatestDE2,
      Load ''/games/AoE2DE/resources/_common/dat/empires2_x2_p1.dat'']"
proof -
  have "take 4 (fst (main decoder_loading [''genie-backend'', ''/games/AoE2DE''])) =
     [Cout ''Loading: /games/AoE2DE/resources/_common/dat/empires2_x2_p1.dat'',
      New_DatFile,
      SetGameVersion GV_LatestDE2,
      Load ''/games/AoE2DE/resources/_common/dat/empires2_x2_p1.dat'']"
    by code_simp
  then show ?thesis
    using version_declared_before_load [of decoder_loading "[''genie-backend'', ''/games/AoE2DE'']"]
    by simp
qed

section \<open>The technology count\<close>

text \<open>
  The reader of a count-prefixed array returns as many elements as the count it read,
  whatever the records hold.
\<close>

lemma read_elements_length:
  "read_elements read_record n c = Inr (xs, c') \<Longrightarrow> length xs = n"
proof (induction n arbitrary: c xs c')
  case 0
  then show ?case by simp
next
  case (Suc n)
  then show ?case by (auto split: sum.splits prod.splits)
qed

lemma read_counted_array_length:
  "read_uint count_width c = Inr (n, c1) \<Longrightarrow>
   read_counted_array count_width read_record c = Inr (xs, c') \<Longrightarrow> length xs = n"
  by (simp add: read_counted_array_def read_elements_length)

text \<open>
  C6. The technology count is the count declared on disk, unused slots included. When
  the bytes at the cursor declare the count \<open>n\<close> and the technology collection of the
  archive is the array decoded from them, by any reader of a record, then the count of
  the archive is \<open>n\<close>, the client prints \<open>n\<close> as the total, and its listing has a
  row for each named slot among the first ten: the slots with an empty name are
  skipped in the rows only. The scenario of ten declared slots with three names is the
  instance that follows.
\<close>

theorem technology_count_is_declared_count:
  "read_uint count_width c = Inr (n, c1) \<Longrightarrow>
   read_counted_array count_width read_record c = Inr (Techs df, c') \<Longrightarrow>
   TechnologyCount df = n \<and>
   Technologies df out =
     Inr (out @ Cout (''=== Technologies ('' @ show_nat n @ '') ==='')
              # tech_rows (Techs df)
              @ (if 10 < n then [more_line (n - 10)] else [])
              @ [Cout '''']) \<and>
   length (tech_rows (Techs df)) = length (filter (\<lambda>t. tech_Name t \<noteq> []) (take 10 (Techs df)))"
proof -
  assume "read_uint count_width c = Inr (n, c1)"
    and "read_counted_array count_width read_record c = Inr (Techs df, c')"
  then have n: "length (Techs df) = n"
    by (rule read_counted_array_length)
  have rows: "length (tech_rows (Techs df)) =
      length (filter (\<lambda>t. tech_Name t \<noteq> []) (take 10 (Techs df)))"
    by (simp add: tech_rows_def length_filter_enumerate)
  from n rows show ?thesis
    using Technologies_out [of df out] by (simp add: TechnologyCount_def)
qed

text \<open>
  Ten slots declared in the bytes, three of them named: the decoded collection has ten
  elements, the count is 10, the header shows 10 and the listing has three rows.
\<close>

theorem technology_count_is_declared_count_witness:
  "read_uint 2 \<lparr>buffer = ten_techs_bytes, offset = 0\<rparr> =
     Inr (10, \<lparr>buffer = ten_techs_bytes, offset = 2\<rparr>) \<and>
   read_counted_array 2 (read_Tech 2) \<lparr>buffer = ten_techs_bytes, offset = 0\<rparr> =
     Inr (Techs archive_ten_techs, \<lparr>buffer = ten_techs_bytes, offset = 49\<rparr>) \<and>
   length (filter (\<lambda>t. tech_Name t \<noteq> []) (Techs archive_ten_techs)) = 3 \<and>
   TechnologyCount archive_ten_techs = 10 \<and>
   Technologies archive_ten_techs [] =
     Inr [Cout ''=== Technologies (10) ==='',
          Cout ''  [0] Town Watch'',
          Cout ''  [2] Crop Rotation'',
          Cout ''  [7] Loom'',
          Cout '''']"
proof -
  have count: "read_uint 2 \<lparr>buffer = ten_techs_bytes, offset = 0\<rparr> =
      Inr (10, \<lparr>buffer = ten_techs_bytes, offset = 2\<rparr>)"
    by code_simp
  have decoded: "read_counted_array 2 (read_Tech 2) \<lparr>buffer = ten_techs_bytes, offset = 0\<rparr> =
      Inr (Techs archive_ten_techs, \<lparr>buffer = ten_techs_bytes, offset = 49\<rparr>)"
    by code_simp
  have named: "length (filter (\<lambda>t. tech_Name t \<noteq> []) (Techs archive_ten_techs)) = 3"
    by (simp add: archive_ten_techs_def)
  have rows: "tech_rows (Techs archive_ten_techs) =
      [Cout ''  [0] Town Watch'', Cout ''  [2] Crop Rotation'', Cout ''  [7] Loom'']"
    by code_simp
  have ten: "show_nat 10 = ''10''"
    by code_simp
  show ?thesis
    using technology_count_is_declared_count [OF count decoded, of "[]"] count decoded named
      rows ten
    by simp
qed

section \<open>The guard on Gaia\<close>

text \<open>
  C9. The client reads \<^verbatim>\<open>Civs[0]\<close> only when the collection of civilizations is not
  empty. For an archive without civilizations the section of Gaia's units leaves the
  output as it was; and for every archive no query of the report is out of range, so no
  run of the client ends in an exception of a query.
\<close>

theorem gaia_access_guarded:
  "(Civs df = [] \<longrightarrow> Units_in_Gaia df out = Inr out) \<and>
   (\<forall>e. report df out \<noteq> Inl e) \<and>
   (\<forall>e. snd (main load argv) \<noteq> Uncaught e)"
proof -
  have r: "report df' out' \<noteq> Inl e" for df' out' e
    using report_prints [of df' out'] by auto
  have "snd (main load argv) \<noteq> Uncaught e" for e
  proof (cases "length argv < 2")
    case True
    then show ?thesis by (cases argv) (simp_all add: main_def)
  next
    case False
    then show ?thesis
      using r by (simp add: main_def Let_def split: load_result.split sum.split)
  qed
  then show ?thesis
    using r by (simp add: Units_in_Gaia_none)
qed

theorem gaia_access_guarded_witness:
  "Civs archive_no_civs = [] \<and>
   Units_in_Gaia archive_no_civs [Cout ''''] = Inr [Cout ''''] \<and>
   (\<forall>e. report archive_no_civs [Cout ''''] \<noteq> Inl e) \<and>
   (\<forall>e. snd (main (\<lambda>v path. Loaded archive_no_civs) [''genie-backend'', ''/games/AoE2DE''])
          \<noteq> Uncaught e)"
  using gaia_access_guarded [of archive_no_civs "[Cout '''']"
      "\<lambda>v path. Loaded archive_no_civs" "[''genie-backend'', ''/games/AoE2DE'']"]
  by (simp add: archive_no_civs_def)

section \<open>Rows and closing lines\<close>

text \<open>
  C10, as stated: each listing is followed by a line \<^verbatim>\<open>... and N more\<close> exactly when
  entries remain beyond the rows printed. The technology listing does not behave so:
  with two slots of which the second is unused, one row is printed, one entry remains,
  and no such line follows.
\<close>

theorem more_line_counterexample:
  "\<not> more_line_iff_entries_remain (length (Techs archive_two_techs))
       (Technologies archive_two_techs [])"
proof -
  have "Technologies archive_two_techs [] =
      Inr [Cout ''=== Technologies (2) ==='', Cout ''  [0] Town Watch'', Cout '''']"
    by code_simp
  then show ?thesis
    by (simp add: more_line_iff_entries_remain_def archive_two_techs_def)
qed

text \<open>
  C10, amended. The technology section prints its header, then at most ten rows, the
  named slots among the first ten, then \<^verbatim>\<open>... and N more\<close> exactly when the
  collection has more than ten slots, with \<open>N\<close> the number of slots beyond the tenth.
  The section of Gaia's units prints its header, then at most ten rows, the first ten
  named units in order, then \<^verbatim>\<open>... and N more\<close> exactly when Gaia has more units
  than rows were printed, with \<open>N\<close> the difference.
\<close>

theorem rows_and_more_lines:
  "Technologies df out =
     Inr (out @ Cout (''=== Technologies ('' @ show_nat (length (Techs df)) @ '') ==='')
              # tech_rows (Techs df)
              @ (if 10 < length (Techs df) then [more_line (length (Techs df) - 10)] else [])
              @ [Cout '''']) \<and>
   length (tech_rows (Techs df)) \<le> 10 \<and>
   (Civs df = gaia # cs \<longrightarrow>
      Units_in_Gaia df out =
        Inr (out @ Cout (''=== Units in '' @ civ_Name gaia @ '' (''
                           @ show_nat (length (civ_Units gaia)) @ '') ==='')
                 # unit_rows (civ_Units gaia)
                 @ (if length (unit_rows (civ_Units gaia)) < length (civ_Units gaia)
                    then [more_line (length (civ_Units gaia) - length (unit_rows (civ_Units gaia)))]
                    else [])) \<and>
      length (unit_rows (civ_Units gaia)) \<le> 10)"
  using Technologies_out [of df out] length_tech_rows [of "Techs df"]
    Units_in_Gaia_out [of df gaia cs out] length_unit_rows [of "civ_Units gaia"]
  by simp

theorem rows_and_more_lines_witness:
  "Civs archive_example = gaia_example # [\<lparr>civ_Name = ''Britons'', civ_Units = []\<rparr>] \<and>
   Technologies archive_example [] =
     Inr [Cout ''=== Technologies (12) ==='',
          Cout ''  [0] Town Watch'',
          Cout ''  [2] Crop Rotation'',
          Cout ''  ... and 2 more'',
          Cout ''''] \<and>
   Units_in_Gaia archive_example [] =
     Inr [Cout ''=== Units in Gaia (2) ==='',
          Cout ''  [4] Scout (HP: 30)'',
          Cout ''  ... and 1 more'']"
proof -
  have civs: "Civs archive_example = gaia_example # [\<lparr>civ_Name = ''Britons'', civ_Units = []\<rparr>]"
    by (simp add: archive_example_def)
  have trows: "tech_rows (Techs archive_example) =
      [Cout ''  [0] Town Watch'', Cout ''  [2] Crop Rotation'']"
    by code_simp
  have urows: "unit_rows (civ_Units gaia_example) = [Cout ''  [4] Scout (HP: 30)'']"
    by code_simp
  have n: "show_nat (length (Techs archive_example)) = ''12''"
    "show_nat (length (civ_Units gaia_example)) = ''2''"
    "length (Techs archive_example) = 12" "length (civ_Units gaia_example) = 2"
    "civ_Name gaia_example = ''Gaia''"
    "more_line 2 = Cout ''  ... and 2 more''" "more_line 1 = Cout ''  ... and 1 more''"
    by code_simp+
  show ?thesis
    using rows_and_more_lines [of archive_example "[]" gaia_example
        "[\<lparr>civ_Name = ''Britons'', civ_Units = []\<rparr>]"] civs trows urows n
    by simp
qed

end
